theory Spec2Isabelle
  imports Complex_Main
begin

section \<open>Numbers\<close>

text \<open>
  The application computes with Python floats. A float value is modelled as a finite
  number, one of the two infinities, or NaN. Finite values are exact rationals: binary
  rounding error, the finite exponent range (so no operation overflows) and the sign
  of zero are not part of the model. The special values follow IEEE 754 as Python exposes it: NaN propagates
  through arithmetic and every ordered comparison with NaN is false.
\<close>

datatype pyfloat = Fin rat | PInf | NInf | NaN

datatype py_error = ZeroDivisionError

definition MIN_GRADE :: pyfloat where
  "MIN_GRADE = Fin 6"

definition MAX_GRADE :: pyfloat where
  "MAX_GRADE = Fin 10"

definition TARGET_AVG :: pyfloat where
  "TARGET_AVG = Fin 8"

fun fl_neg :: "pyfloat \<Rightarrow> pyfloat" where
  "fl_neg (Fin a) = Fin (- a)"
| "fl_neg PInf = NInf"
| "fl_neg NInf = PInf"
| "fl_neg NaN = NaN"

fun fl_add :: "pyfloat \<Rightarrow> pyfloat \<Rightarrow> pyfloat" where
  "fl_add (Fin a) (Fin b) = Fin (a + b)"
| "fl_add NaN _ = NaN"
| "fl_add _ NaN = NaN"
| "fl_add PInf NInf = NaN"
| "fl_add NInf PInf = NaN"
| "fl_add PInf _ = PInf"
| "fl_add _ PInf = PInf"
| "fl_add NInf _ = NInf"
| "fl_add _ NInf = NInf"

definition fl_sub :: "pyfloat \<Rightarrow> pyfloat \<Rightarrow> pyfloat" where
  "fl_sub a b = fl_add a (fl_neg b)"

text \<open>The product of an infinity with a finite number: zero times infinity is NaN.\<close>

definition inf_times :: "bool \<Rightarrow> rat \<Rightarrow> pyfloat" where
  "inf_times positive a =
     (if a = 0 then NaN else if (0 < a) = positive then PInf else NInf)"

fun fl_mul :: "pyfloat \<Rightarrow> pyfloat \<Rightarrow> pyfloat" where
  "fl_mul (Fin a) (Fin b) = Fin (a * b)"
| "fl_mul NaN _ = NaN"
| "fl_mul _ NaN = NaN"
| "fl_mul PInf (Fin b) = inf_times True b"
| "fl_mul NInf (Fin b) = inf_times False b"
| "fl_mul (Fin a) PInf = inf_times True a"
| "fl_mul (Fin a) NInf = inf_times False a"
| "fl_mul PInf PInf = PInf"
| "fl_mul NInf NInf = PInf"
| "fl_mul PInf NInf = NInf"
| "fl_mul NInf PInf = NInf"

text \<open>
  Python's \<^verbatim>\<open>/\<close> raises ZeroDivisionError when the divisor compares equal to zero,
  whatever the dividend is.
\<close>

fun fl_div :: "pyfloat \<Rightarrow> pyfloat \<Rightarrow> py_error + pyfloat" where
  "fl_div a (Fin b) =
     (if b = 0 then Inl ZeroDivisionError
      else Inr (case a of Fin c \<Rightarrow> Fin (c / b)
                | PInf \<Rightarrow> inf_times True b
                | NInf \<Rightarrow> inf_times False b
                | NaN \<Rightarrow> NaN))"
| "fl_div NaN _ = Inr NaN"
| "fl_div _ NaN = Inr NaN"
| "fl_div (Fin a) _ = Inr (Fin 0)"
| "fl_div _ _ = Inr NaN"

text \<open>\<^verbatim>\<open>a < b\<close>, \<^verbatim>\<open>a > b\<close> and \<^verbatim>\<open>a != b\<close> on floats.\<close>

fun fl_lt :: "pyfloat \<Rightarrow> pyfloat \<Rightarrow> bool" where
  "fl_lt (Fin a) (Fin b) = (a < b)"
| "fl_lt NaN _ = False"
| "fl_lt _ NaN = False"
| "fl_lt _ NInf = False"
| "fl_lt PInf _ = False"
| "fl_lt _ _ = True"

definition fl_gt :: "pyfloat \<Rightarrow> pyfloat \<Rightarrow> bool" where
  "fl_gt a b = fl_lt b a"

definition fl_ne :: "pyfloat \<Rightarrow> pyfloat \<Rightarrow> bool" where
  "fl_ne a b = (a = NaN \<or> b = NaN \<or> a \<noteq> b)"

text \<open>
  The builtins \<^verbatim>\<open>min(a, b)\<close> and \<^verbatim>\<open>max(a, b)\<close> keep their first argument unless the
  second one is strictly smaller (larger); a NaN second argument is therefore dropped.
\<close>

definition py_min :: "pyfloat \<Rightarrow> pyfloat \<Rightarrow> pyfloat" where
  "py_min a b = (if fl_lt b a then b else a)"

definition py_max :: "pyfloat \<Rightarrow> pyfloat \<Rightarrow> pyfloat" where
  "py_max a b = (if fl_gt b a then b else a)"

text \<open>\<^verbatim>\<open>sum(xs)\<close> starts from 0 and adds from the left.\<close>

definition py_sum :: "pyfloat list \<Rightarrow> pyfloat" where
  "py_sum xs = foldl fl_add (Fin 0) xs"

text \<open>
  \<^verbatim>\<open>round(x, 2)\<close>: the nearest multiple of 1/100, a tie going to the even neighbour;
  infinities and NaN are returned as they are.
\<close>

definition round_half_even :: "rat \<Rightarrow> int" where
  "round_half_even q =
     (let f = \<lfloor>q\<rfloor>; d = q - of_int f
      in if d < 1 / 2 then f
         else if 1 / 2 < d then f + 1
         else if even f then f else f + 1)"

fun py_round2 :: "pyfloat \<Rightarrow> pyfloat" where
  "py_round2 (Fin q) = Fin (of_int (round_half_even (q * 100)) / 100)"
| "py_round2 x = x"

text \<open>Sequencing of computations that may raise: the first exception is passed on.\<close>

definition bind_res :: "py_error + 'a \<Rightarrow> ('a \<Rightarrow> py_error + 'b) \<Rightarrow> py_error + 'b" where
  "bind_res m k = (case m of Inl e \<Rightarrow> Inl e | Inr v \<Rightarrow> k v)"

section \<open>The trend predictor\<close>

text \<open>
  The local values of \<^verbatim>\<open>linear_regression_predict\<close> for a history of two or more
  points, in the order the function computes them. Each division is a place where
  Python can raise, so the computation returns a sum. The square \<^verbatim>\<open>(x - x_mean)**2\<close>
  is the product of the difference with itself.
\<close>

record fit =
  slope :: pyfloat
  intercept :: pyfloat
  average_gap :: pyfloat
  next_x :: pyfloat
  pred :: pyfloat

definition deltas :: "pyfloat list \<Rightarrow> pyfloat list" where
  "deltas xs = map (\<lambda>i. fl_sub (xs ! (i + 1)) (xs ! i)) [0 ..< length xs - 1]"

definition regression_fit :: "(pyfloat \<times> pyfloat) list \<Rightarrow> py_error + fit" where
  "regression_fit points =
     (let n = length points;
          xs = map fst points;
          ys = map snd points
      in bind_res (fl_div (py_sum xs) (Fin (of_nat n))) (\<lambda>x_mean.
         bind_res (fl_div (py_sum ys) (Fin (of_nat n))) (\<lambda>y_mean.
         let num = py_sum (map (\<lambda>(x, y). fl_mul (fl_sub x x_mean) (fl_sub y y_mean)) (zip xs ys));
             den = py_sum (map (\<lambda>x. fl_mul (fl_sub x x_mean) (fl_sub x x_mean)) xs)
         in bind_res (if fl_ne den (Fin 0) then fl_div num den else Inr (Fin 0)) (\<lambda>sl.
         let ic = fl_sub y_mean (fl_mul sl x_mean);
             ds = (if 1 < n then deltas xs else [Fin 1])
         in bind_res (fl_div (py_sum ds) (Fin (of_nat (length ds)))) (\<lambda>gap.
         let nx = fl_add (last xs) gap
         in Inr \<lparr>slope = sl, intercept = ic, average_gap = gap, next_x = nx,
                 pred = fl_add (fl_mul sl nx) ic\<rparr>)))))"

definition linear_regression_predict ::
  "(pyfloat \<times> pyfloat) list \<Rightarrow> py_error + pyfloat option" where
  "linear_regression_predict points =
     (let n = length points
      in if n = 0 then Inr None
         else if n = 1 then Inr (Some (snd (points ! 0)))
         else bind_res (regression_fit points) (\<lambda>f.
                Inr (Some (py_round2 (py_max MIN_GRADE (py_min MAX_GRADE (pred f)))))))"

subsection \<open>The fit as the specification words it\<close>

text \<open>
  The least-squares line over exact numbers, following the formulas of the
  specification: the means, the slope with its zero-denominator rule, the intercept,
  the mean of the consecutive gaps and the extrapolated value. \<open>fin_point\<close> embeds a
  pair of finite numbers into the floats.
\<close>

definition fin_point :: "rat \<times> rat \<Rightarrow> pyfloat \<times> pyfloat" where
  "fin_point p = (Fin (fst p), Fin (snd p))"

definition mean :: "rat list \<Rightarrow> rat" where
  "mean qs = sum_list qs / of_nat (length qs)"

definition spec_slope :: "(rat \<times> rat) list \<Rightarrow> rat" where
  "spec_slope pts =
     (let x_mean = mean (map fst pts); y_mean = mean (map snd pts);
          den = (\<Sum>p\<leftarrow>pts. (fst p - x_mean) * (fst p - x_mean))
      in if den = 0 then 0
         else (\<Sum>p\<leftarrow>pts. (fst p - x_mean) * (snd p - y_mean)) / den)"

definition spec_intercept :: "(rat \<times> rat) list \<Rightarrow> rat" where
  "spec_intercept pts = mean (map snd pts) - spec_slope pts * mean (map fst pts)"

definition spec_average_gap :: "rat list \<Rightarrow> rat" where
  "spec_average_gap xs = mean (map (\<lambda>i. xs ! (i + 1) - xs ! i) [0 ..< length xs - 1])"

definition spec_next_x :: "(rat \<times> rat) list \<Rightarrow> rat" where
  "spec_next_x pts = last (map fst pts) + spec_average_gap (map fst pts)"

definition spec_predicted :: "(rat \<times> rat) list \<Rightarrow> rat" where
  "spec_predicted pts = spec_slope pts * spec_next_x pts + spec_intercept pts"

section \<open>Subject records and the prediction endpoint\<close>

text \<open>
  A document of the \<^verbatim>\<open>subjects\<close> collection. \<open>grade\<close> is \<open>None\<close> when the
  document has no \<^verbatim>\<open>grade\<close> field. \<open>date_added\<close> is \<open>Some t\<close> when the field holds
  a datetime, \<open>t\<close> being the value of its \<^verbatim>\<open>timestamp()\<close>, and \<open>None\<close> when the field
  is missing or holds a value without a \<^verbatim>\<open>timestamp\<close> attribute.
\<close>

type_synonym oid = nat

record subject_rec =
  sub_id :: oid
  student_id :: string
  subject :: string
  grade :: "pyfloat option"
  date_added :: "rat option"

text \<open>\<^verbatim>\<open>float(s.get("grade", 0))\<close>\<close>

definition float_grade :: "subject_rec \<Rightarrow> pyfloat" where
  "float_grade s = (case grade s of None \<Rightarrow> Fin 0 | Some g \<Rightarrow> g)"

definition prepare_points_from_subjects :: "subject_rec list \<Rightarrow> (pyfloat \<times> pyfloat) list" where
  "prepare_points_from_subjects subjects =
     map (\<lambda>(idx, s).
            (case date_added s of Some t \<Rightarrow> Fin t | None \<Rightarrow> Fin (of_nat idx), float_grade s))
         (enumerate 0 subjects)"

text \<open>
  The JSON object answered by \<^verbatim>\<open>predict\<close>; \<open>json_student_id\<close> is \<open>None\<close> in the
  answer for a student without subjects, which has no such key. The argument
  \<open>subjects\<close> is the result of the query of the first line of the function: the
  student's documents, sorted by the database.
\<close>

record prediction_json =
  json_student_id :: "string option"
  prediction :: "pyfloat option"
  baseline_avg :: "pyfloat option"
  explanation :: string

definition predict :: "string \<Rightarrow> subject_rec list \<Rightarrow> py_error + prediction_json" where
  "predict sid subjects =
     (if subjects = [] then
        Inr \<lparr>json_student_id = None, prediction = None, baseline_avg = None,
             explanation = ''No grades available.''\<rparr>
      else
        let points = prepare_points_from_subjects subjects
        in bind_res (linear_regression_predict points) (\<lambda>p.
           let grades = map float_grade subjects
           in bind_res (if grades \<noteq> []
                        then bind_res (fl_div (py_sum grades) (Fin (of_nat (length grades))))
                               (\<lambda>m. Inr (Some (py_round2 m)))
                        else Inr None) (\<lambda>avg.
              Inr (if p = None
                   then \<lparr>json_student_id = Some sid, prediction = avg, baseline_avg = avg,
                         explanation = ''Not enough history; using baseline average.''\<rparr>
                   else \<lparr>json_student_id = Some sid, prediction = p, baseline_avg = avg,
                         explanation = ''Prediction based on linear trend of historical grades.''\<rparr>))))"

section \<open>The required next grade\<close>

text \<open>
  The block of \<^verbatim>\<open>student_page\<close> that computes \<^verbatim>\<open>required_grade\<close> from the list
  \<^verbatim>\<open>grades\<close>; the target average is an argument here, and the page passes
  \<open>TARGET_AVG\<close>.
\<close>

definition required_grade :: "pyfloat \<Rightarrow> pyfloat list \<Rightarrow> pyfloat option" where
  "required_grade target grades =
     (if grades \<noteq> [] then
        let required = fl_sub (fl_mul target (Fin (of_nat (length grades + 1)))) (py_sum grades)
        in if fl_gt required MAX_GRADE then None
           else if fl_lt required MIN_GRADE then Some MIN_GRADE
           else Some (py_round2 required)
      else Some target)"

definition student_page_required_grade :: "subject_rec list \<Rightarrow> pyfloat option" where
  "student_page_required_grade subjects =
     required_grade TARGET_AVG (if subjects \<noteq> [] then map float_grade subjects else [])"

section \<open>Writing subject records\<close>

text \<open>
  The database holds two collections. Only the fields the handlers below read or
  write are kept in a student document.
\<close>

record student_rec =
  stu_id :: oid
  name :: string

record db =
  students :: "student_rec list"
  subjects :: "subject_rec list"

datatype response = Status nat string | Redirect string

text \<open>
  Two library functions are arguments of the handlers: \<open>ObjectId\<close>, the constructor of
  \<^verbatim>\<open>bson.objectid\<close> applied to a string, and \<open>float_of_string\<close>, the builtin
  \<^verbatim>\<open>float\<close> applied to a string. Each returns \<open>None\<close> where the Python raises.
\<close>

record library =
  ObjectId :: "string \<Rightarrow> oid option"
  float_of_string :: "string \<Rightarrow> pyfloat option"

definition to_objid :: "library \<Rightarrow> string \<Rightarrow> oid option" where
  "to_objid lib id_str = ObjectId lib id_str"

text \<open>\<^verbatim>\<open>request.form.get(key, "")\<close> and \<^verbatim>\<open>str.strip()\<close> (ASCII white space).\<close>

definition form_get :: "(string \<rightharpoonup> string) \<Rightarrow> string \<Rightarrow> string" where
  "form_get form key = (case form key of None \<Rightarrow> [] | Some v \<Rightarrow> v)"

definition py_isspace :: "char \<Rightarrow> bool" where
  "py_isspace c = (let k = (of_char c :: nat) in (9 \<le> k \<and> k \<le> 13) \<or> (28 \<le> k \<and> k \<le> 32))"

definition strip :: "string \<Rightarrow> string" where
  "strip s = rev (dropWhile py_isspace (rev (dropWhile py_isspace s)))"

text \<open>
  The POST branch of \<^verbatim>\<open>student_page\<close>. \<open>new_id\<close> is the identifier the driver gives
  the inserted document and \<open>now\<close> the timestamp of \<^verbatim>\<open>datetime.utcnow()\<close>. The handler
  returns the response and the database after the request.
\<close>

definition student_page_post ::
  "library \<Rightarrow> oid \<Rightarrow> rat \<Rightarrow> db \<Rightarrow> string \<Rightarrow> (string \<rightharpoonup> string) \<Rightarrow> response \<times> db" where
  "student_page_post lib new_id now d ident form =
     (case to_objid lib ident of
        None \<Rightarrow> (Status 404 ''Student not found'', d)
      | Some oid \<Rightarrow>
         (case find (\<lambda>st. stu_id st = oid) (students d) of
            None \<Rightarrow> (Status 404 ''Student not found'', d)
          | Some student \<Rightarrow>
             (let subj_name = strip (form_get form ''subject_name'')
              in (case float_of_string lib (form_get form ''grade'') of
                    None \<Rightarrow> (Status 400 ''Error: Invalid grade'', d)
                  | Some g \<Rightarrow>
                     if subj_name = [] \<or> fl_lt g MIN_GRADE \<or> fl_gt g MAX_GRADE
                     then (Status 400 ''Error: Grade must be 6-10'', d)
                     else (Redirect (''/student/'' @ ident),
                           d\<lparr>subjects := subjects d @
                               [\<lparr>sub_id = new_id, student_id = ident, subject = subj_name,
                                 grade = Some g, date_added = Some now\<rparr>]\<rparr>)))))"

text \<open>\<^verbatim>\<open>update_one\<close> with \<^verbatim>\<open>$set\<close> changes the first document with the given identifier.\<close>

fun update_one :: "oid \<Rightarrow> string \<Rightarrow> pyfloat \<Rightarrow> subject_rec list \<Rightarrow> subject_rec list" where
  "update_one oid new_name new_grade [] = []"
| "update_one oid new_name new_grade (s # ss) =
     (if sub_id s = oid then s\<lparr>subject := new_name, grade := Some new_grade\<rparr> # ss
      else s # update_one oid new_name new_grade ss)"

definition edit_subject ::
  "library \<Rightarrow> db \<Rightarrow> string \<Rightarrow> string \<Rightarrow> (string \<rightharpoonup> string) \<Rightarrow> response \<times> db" where
  "edit_subject lib d sid subject_id form =
     (case to_objid lib subject_id of
        None \<Rightarrow> (Status 404 ''Subject not found'', d)
      | Some oid \<Rightarrow>
         (let new_name = strip (form_get form ''new_name'')
          in (case float_of_string lib (form_get form ''new_grade'') of
                None \<Rightarrow> (Status 400 ''Error: Invalid grade'', d)
              | Some new_grade \<Rightarrow>
                 if new_name = [] \<or> fl_lt new_grade MIN_GRADE \<or> fl_gt new_grade MAX_GRADE
                 then (Status 400 ''Error: Grade must be 6-10'', d)
                 else (Redirect (''/student/'' @ sid),
                       d\<lparr>subjects := update_one oid new_name new_grade (subjects d)\<rparr>))))"

text \<open>The property the validation is there for: every stored grade is a number within the bounds.\<close>

definition grade_in_bounds :: "subject_rec \<Rightarrow> bool" where
  "grade_in_bounds s =
     (case grade s of
        None \<Rightarrow> False
      | Some g \<Rightarrow> (case g of Fin q \<Rightarrow> 6 \<le> q \<and> q \<le> 10 | PInf \<Rightarrow> False | NInf \<Rightarrow> False
                   | NaN \<Rightarrow> False))"

definition stored_grades_in_bounds :: "db \<Rightarrow> bool" where
  "stored_grades_in_bounds d = list_all grade_in_bounds (subjects d)"

section \<open>Properties of the arithmetic\<close>

lemma bind_res_Inr [simp]: "bind_res (Inr v) k = k v"
  by (simp add: bind_res_def)

lemma bind_res_Inl [simp]: "bind_res (Inl e) k = Inl e"
  by (simp add: bind_res_def)

lemma fl_div_total: "b \<noteq> Fin 0 \<Longrightarrow> \<exists>v. fl_div a b = Inr v"
  by (cases a; cases b) auto

lemma fl_ne_zero: "fl_ne d (Fin 0) \<Longrightarrow> d \<noteq> Fin 0"
  by (auto simp: fl_ne_def)

lemma length_deltas [simp]: "length (deltas xs) = length xs - 1"
  by (simp add: deltas_def)

lemma regression_fit_steps:
  assumes "points \<noteq> []"
  obtains xm ym sl gap where
    "fl_div (py_sum (map fst points)) (Fin (of_nat (length points))) = Inr xm"
    "fl_div (py_sum (map snd points)) (Fin (of_nat (length points))) = Inr ym"
    "(if fl_ne (py_sum (map (\<lambda>x. fl_mul (fl_sub x xm) (fl_sub x xm)) (map fst points))) (Fin 0)
      then fl_div (py_sum (map (\<lambda>(x, y). fl_mul (fl_sub x xm) (fl_sub y ym))
                      (zip (map fst points) (map snd points))))
             (py_sum (map (\<lambda>x. fl_mul (fl_sub x xm) (fl_sub x xm)) (map fst points)))
      else Inr (Fin 0)) = Inr sl"
    "regression_fit points =
       Inr \<lparr>slope = sl, intercept = fl_sub ym (fl_mul sl xm), average_gap = gap,
            next_x = fl_add (last (map fst points)) gap,
            pred = fl_add (fl_mul sl (fl_add (last (map fst points)) gap))
                     (fl_sub ym (fl_mul sl xm))\<rparr>"
proof -
  let ?n = "length points"
  have n: "Fin (of_nat ?n) \<noteq> Fin 0" using assms by simp
  obtain xm where xm: "fl_div (py_sum (map fst points)) (Fin (of_nat ?n)) = Inr xm"
    using fl_div_total [OF n] by blast
  obtain ym where ym: "fl_div (py_sum (map snd points)) (Fin (of_nat ?n)) = Inr ym"
    using fl_div_total [OF n] by blast
  define num where "num = py_sum (map (\<lambda>(x, y). fl_mul (fl_sub x xm) (fl_sub y ym))
     (zip (map fst points) (map snd points)))"
  define den where "den = py_sum (map (\<lambda>x. fl_mul (fl_sub x xm) (fl_sub x xm)) (map fst points))"
  obtain sl where sl: "(if fl_ne den (Fin 0) then fl_div num den else Inr (Fin 0)) = Inr sl"
    using fl_div_total [OF fl_ne_zero, of den num] by (cases "fl_ne den (Fin 0)") auto
  define ds where "ds = (if 1 < ?n then deltas (map fst points) else [Fin 1])"
  have "length ds = (if 1 < ?n then ?n - 1 else 1)" by (simp add: ds_def)
  then have "length ds \<noteq> 0" by (cases "1 < ?n") auto
  then have "Fin (of_nat (length ds)) \<noteq> Fin 0" by simp
  then obtain gap where gap: "fl_div (py_sum ds) (Fin (of_nat (length ds))) = Inr gap"
    using fl_div_total by blast
  have "regression_fit points =
          Inr \<lparr>slope = sl, intercept = fl_sub ym (fl_mul sl xm), average_gap = gap,
               next_x = fl_add (last (map fst points)) gap,
               pred = fl_add (fl_mul sl (fl_add (last (map fst points)) gap))
                        (fl_sub ym (fl_mul sl xm))\<rparr>"
    by (simp only: regression_fit_def Let_def xm ym bind_res_Inr
          sl [unfolded num_def den_def] gap [unfolded ds_def])
  then show ?thesis using that xm ym sl [unfolded num_def den_def] by blast
qed

lemma regression_fit_total:
  assumes "points \<noteq> []"
  shows "\<exists>f. regression_fit points = Inr f"
  using regression_fit_steps [OF assms] by metis

lemma round_half_even_of_int [simp]: "round_half_even (of_int k) = k"
  by (simp add: round_half_even_def)

lemma round_half_even_ge: "of_int a \<le> q \<Longrightarrow> a \<le> round_half_even q"
proof -
  assume "of_int a \<le> q"
  then have "a \<le> \<lfloor>q\<rfloor>" by (simp add: le_floor_iff)
  then show ?thesis by (auto simp: round_half_even_def Let_def)
qed

lemma round_half_even_le: "q \<le> of_int b \<Longrightarrow> round_half_even q \<le> b"
proof -
  assume h: "q \<le> of_int b"
  show ?thesis
  proof (cases "q = of_int \<lfloor>q\<rfloor>")
    case True
    then have "round_half_even q = \<lfloor>q\<rfloor>" by (metis round_half_even_of_int)
    moreover have "\<lfloor>q\<rfloor> \<le> b" using h by (simp add: floor_le_iff)
    ultimately show ?thesis by simp
  next
    case False
    then have "of_int \<lfloor>q\<rfloor> < q" by (metis less_le of_int_floor_le)
    then have "(of_int \<lfloor>q\<rfloor> :: rat) < of_int b" using h by (rule less_le_trans)
    then have "\<lfloor>q\<rfloor> < b" by (simp only: of_int_less_iff)
    then show ?thesis by (auto simp: round_half_even_def Let_def)
  qed
qed

lemma clip_in_range:
  "\<exists>q. py_round2 (py_max MIN_GRADE (py_min MAX_GRADE p)) = Fin q \<and> 6 \<le> q \<and> q \<le> 10"
proof -
  have "\<exists>c. py_max MIN_GRADE (py_min MAX_GRADE p) = Fin c \<and> 6 \<le> c \<and> c \<le> 10"
    by (cases p) (simp_all add: py_max_def py_min_def MIN_GRADE_def MAX_GRADE_def fl_gt_def)
  then obtain c where c: "py_max MIN_GRADE (py_min MAX_GRADE p) = Fin c" "6 \<le> c" "c \<le> 10"
    by blast
  have lo: "of_int 600 \<le> c * 100" and hi: "c * 100 \<le> of_int 1000" using c by simp_all
  have "600 \<le> round_half_even (c * 100)" "round_half_even (c * 100) \<le> 1000"
    using round_half_even_ge [OF lo] round_half_even_le [OF hi] by simp_all
  then have k: "(600::rat) \<le> of_int (round_half_even (c * 100))"
    "of_int (round_half_even (c * 100)) \<le> (1000::rat)"
    by (simp_all only: of_int_le_iff [symmetric, where ?'a = rat] of_int_numeral)
  define r :: rat where "r = of_int (round_half_even (c * 100)) / 100"
  have "6 \<le> r" "r \<le> 10" using k by (simp_all add: r_def)
  moreover have "py_round2 (py_max MIN_GRADE (py_min MAX_GRADE p)) = Fin r"
    by (simp add: c r_def)
  ultimately show ?thesis by blast
qed

lemma clip_above:
  "fl_gt p MAX_GRADE \<Longrightarrow> py_round2 (py_max MIN_GRADE (py_min MAX_GRADE p)) = MAX_GRADE"
proof -
  assume "fl_gt p MAX_GRADE"
  then have "py_max MIN_GRADE (py_min MAX_GRADE p) = Fin 10"
    by (cases p) (auto simp: py_max_def py_min_def MIN_GRADE_def MAX_GRADE_def fl_gt_def)
  moreover have "round_half_even (10 * 100) = 1000"
    using round_half_even_of_int [of 1000] by simp
  ultimately show ?thesis by (simp add: MAX_GRADE_def)
qed

lemma foldl_fl_add_Fin: "foldl fl_add (Fin a) (map Fin qs) = Fin (a + sum_list qs)"
  by (induction qs arbitrary: a) (simp_all add: add.assoc)

lemma py_sum_Fin: "py_sum (map Fin qs) = Fin (sum_list qs)"
  by (simp add: py_sum_def foldl_fl_add_Fin)

lemma fl_sub_Fin [simp]: "fl_sub (Fin a) (Fin b) = Fin (a - b)"
  by (simp add: fl_sub_def)

lemma fl_ne_Fin [simp]: "fl_ne (Fin a) (Fin b) = (a \<noteq> b)"
  by (simp add: fl_ne_def)

lemma fl_div_Fin: "b \<noteq> 0 \<Longrightarrow> fl_div (Fin a) (Fin b) = Inr (Fin (a / b))"
  by simp

lemma deltas_Fin:
  "deltas (map Fin xs) = map Fin (map (\<lambda>i. xs ! (i + 1) - xs ! i) [0 ..< length xs - 1])"
  by (simp add: deltas_def)

lemma py_sum_zeros: "\<forall>v\<in>set vs. v = Fin 0 \<Longrightarrow> py_sum vs = Fin 0"
proof -
  assume "\<forall>v\<in>set vs. v = Fin 0"
  then have "vs = map Fin (replicate (length vs) 0)"
    by (induction vs) simp_all
  then have "py_sum vs = Fin (sum_list (replicate (length vs) 0))"
    by (metis py_sum_Fin)
  then show ?thesis by (simp add: sum_list_replicate)
qed

lemma py_sum_const:
  assumes "\<forall>v\<in>set vs. v = Fin c"
  shows "py_sum vs = Fin (of_nat (length vs) * c)"
proof -
  from assms have "vs = map Fin (replicate (length vs) c)"
    by (induction vs) simp_all
  then have "py_sum vs = Fin (sum_list (replicate (length vs) c))"
    by (metis py_sum_Fin)
  then show ?thesis by (simp add: sum_list_replicate)
qed

lemma round_half_even_error: "\<bar>of_int (round_half_even q) - q\<bar> \<le> 1 / 2"
proof -
  have "of_int \<lfloor>q\<rfloor> \<le> q" "q < of_int \<lfloor>q\<rfloor> + 1" by linarith+
  then show ?thesis by (auto simp: round_half_even_def Let_def abs_le_iff)
qed

lemma py_round2_error:
  "\<bar>of_int (round_half_even (g * 100)) / 100 - g\<bar> \<le> 1 / 200"
proof -
  have "\<bar>of_int (round_half_even (g * 100)) - g * 100\<bar> \<le> 1 / 2"
    by (rule round_half_even_error)
  then show ?thesis by (simp add: abs_le_iff field_simps)
qed

lemma sum_list_zero_terms: "\<forall>x\<in>set xs. f x = (0::rat) \<Longrightarrow> sum_list (map f xs) = 0"
  by (induction xs) simp_all

lemma mean_const:
  assumes "xs \<noteq> []" "\<forall>x\<in>set xs. x = c"
  shows "mean xs = c"
proof -
  from assms(2) have "xs = replicate (length xs) c" by (induction xs) simp_all
  then have "sum_list xs = of_nat (length xs) * c" by (metis sum_list_replicate)
  then show ?thesis using assms(1) by (simp add: mean_def)
qed

lemma clip_inside:
  "6 \<le> g \<Longrightarrow> g \<le> 10 \<Longrightarrow> py_max MIN_GRADE (py_min MAX_GRADE (Fin g)) = Fin g"
  by (simp add: py_max_def py_min_def MIN_GRADE_def MAX_GRADE_def fl_gt_def)

lemma round_half_even_mono: "q \<le> q' \<Longrightarrow> round_half_even q \<le> round_half_even q'"
proof -
  assume le: "q \<le> q'"
  have b: "of_int \<lfloor>q\<rfloor> \<le> q" "q < of_int \<lfloor>q\<rfloor> + 1" "of_int \<lfloor>q'\<rfloor> \<le> q'" "q' < of_int \<lfloor>q'\<rfloor> + 1"
    by linarith+
  have fm: "\<lfloor>q\<rfloor> \<le> \<lfloor>q'\<rfloor>" using le by (rule floor_mono)
  show ?thesis
  proof (cases "\<lfloor>q\<rfloor> = \<lfloor>q'\<rfloor>")
    case True
    then show ?thesis using le by (auto simp: round_half_even_def Let_def)
  next
    case False
    with fm have "\<lfloor>q\<rfloor> + 1 \<le> \<lfloor>q'\<rfloor>" by simp
    moreover have "round_half_even q \<le> \<lfloor>q\<rfloor> + 1" by (auto simp: round_half_even_def Let_def)
    moreover have "\<lfloor>q'\<rfloor> \<le> round_half_even q'" by (auto simp: round_half_even_def Let_def)
    ultimately show ?thesis by linarith
  qed
qed

section \<open>Properties of the trend predictor\<close>

lemma regression_fit_Fin:
  assumes "2 \<le> length pts"
  shows "regression_fit (map fin_point pts) =
           Inr \<lparr>slope = Fin (spec_slope pts), intercept = Fin (spec_intercept pts),
                average_gap = Fin (spec_average_gap (map fst pts)),
                next_x = Fin (spec_next_x pts), pred = Fin (spec_predicted pts)\<rparr>"
proof -
  let ?n = "length pts"
  from assms have n: "(of_nat ?n :: rat) \<noteq> 0" "1 < ?n" "pts \<noteq> []" by auto
  have xs: "map fst (map fin_point pts) = map Fin (map fst pts)"
    and ys: "map snd (map fin_point pts) = map Fin (map snd pts)"
    by (simp_all add: fin_point_def comp_def)
  have xm: "fl_div (py_sum (map Fin (map fst pts))) (Fin (of_nat ?n)) = Inr (Fin (mean (map fst pts)))"
    and ym: "fl_div (py_sum (map Fin (map snd pts))) (Fin (of_nat ?n)) = Inr (Fin (mean (map snd pts)))"
    by (simp_all only: py_sum_Fin fl_div_Fin [OF n(1)] mean_def length_map)
  have num: "py_sum (map (\<lambda>(x, y). fl_mul (fl_sub x (Fin a)) (fl_sub y (Fin b)))
                 (zip (map Fin (map fst pts)) (map Fin (map snd pts))))
             = Fin (\<Sum>p\<leftarrow>pts. (fst p - a) * (snd p - b))" for a b
  proof -
    have "map (\<lambda>(x, y). fl_mul (fl_sub x (Fin a)) (fl_sub y (Fin b)))
                 (zip (map Fin (map fst pts)) (map Fin (map snd pts)))
          = map Fin (map (\<lambda>p. (fst p - a) * (snd p - b)) pts)"
      by (induction pts) simp_all
    then show ?thesis by (simp only: py_sum_Fin)
  qed
  have den: "py_sum (map (\<lambda>x. fl_mul (fl_sub x (Fin a)) (fl_sub x (Fin a))) (map Fin (map fst pts)))
             = Fin (\<Sum>p\<leftarrow>pts. (fst p - a) * (fst p - a))" for a
  proof -
    have "map (\<lambda>x. fl_mul (fl_sub x (Fin a)) (fl_sub x (Fin a))) (map Fin (map fst pts))
          = map Fin (map (\<lambda>p. (fst p - a) * (fst p - a)) pts)"
      by (induction pts) simp_all
    then show ?thesis by (simp only: py_sum_Fin)
  qed
  have sl: "(if fl_ne (Fin d) (Fin 0) then fl_div (Fin m) (Fin d) else Inr (Fin 0))
            = Inr (Fin (if d = 0 then 0 else m / d))" for m d
    by simp
  have gap: "fl_div (py_sum (deltas (map Fin (map fst pts))))
               (Fin (of_nat (length (deltas (map Fin (map fst pts))))))
             = Inr (Fin (spec_average_gap (map fst pts)))"
    using n by (simp add: deltas_Fin py_sum_Fin spec_average_gap_def mean_def del: map_map)
  have lst: "last (map Fin (map fst pts)) = Fin (last (map fst pts))"
    using n by (simp add: last_map)
  show ?thesis
    unfolding regression_fit_def Let_def xs ys length_map
    by (simp only: xm ym num den sl gap lst n if_True bind_res_Inr fl_add.simps fl_mul.simps
        fl_sub_Fin spec_predicted_def spec_next_x_def spec_intercept_def spec_slope_def Let_def)
qed


lemma linear_regression_predict_total: "\<exists>r. linear_regression_predict points = Inr r"
proof (cases "points = []")
  case True
  then show ?thesis by (simp add: linear_regression_predict_def)
next
  case False
  then obtain f where "regression_fit points = Inr f"
    using regression_fit_total by blast
  then show ?thesis by (simp add: linear_regression_predict_def Let_def)
qed

lemma regression_fit_example_steep:
  "regression_fit [(Fin 0, Fin 6), (Fin 1, Fin 9), (Fin 2, Fin 12)] =
     Inr \<lparr>slope = Fin 3, intercept = Fin 6, average_gap = Fin 1, next_x = Fin 3,
          pred = Fin 15\<rparr>"
  by code_simp






text \<open>
  C2: for the history \<open>[(0,6),(1,7),(2,8)]\<close> the fitted line has slope 1 and
  intercept 6, the average gap is 1, the next x is 3 and the prediction is 9; for
  three subjects with these grades, in this order and without timestamps, \<open>predict\<close>
  answers prediction 9 and baseline average 7.
\<close>

theorem C2_three_point_history:
  "regression_fit [(Fin 0, Fin 6), (Fin 1, Fin 7), (Fin 2, Fin 8)] =
     Inr \<lparr>slope = Fin 1, intercept = Fin 6, average_gap = Fin 1, next_x = Fin 3, pred = Fin 9\<rparr>
   \<and> linear_regression_predict [(Fin 0, Fin 6), (Fin 1, Fin 7), (Fin 2, Fin 8)]
       = Inr (Some (Fin 9))
   \<and> predict sid
        [\<lparr>sub_id = 1, student_id = sid, subject = ''A'', grade = Some (Fin 6), date_added = None\<rparr>,
         \<lparr>sub_id = 2, student_id = sid, subject = ''B'', grade = Some (Fin 7), date_added = None\<rparr>,
         \<lparr>sub_id = 3, student_id = sid, subject = ''C'', grade = Some (Fin 8), date_added = None\<rparr>]
       = Inr \<lparr>json_student_id = Some sid, prediction = Some (Fin 9),
              baseline_avg = Some (Fin 7),
              explanation = ''Prediction based on linear trend of historical grades.''\<rparr>"
  by code_simp



section \<open>Properties of the required next grade\<close>



text \<open>The page calls the block with the grades of the student's records and \<open>TARGET_AVG\<close>.\<close>

lemma student_page_required_grade_Fin:
  assumes "map float_grade subs = map Fin gs"
  shows "student_page_required_grade subs = required_grade (Fin 8) (map Fin gs)"
proof (cases "subs = []")
  case True
  with assms show ?thesis by (simp add: student_page_required_grade_def TARGET_AVG_def)
next
  case False
  with assms show ?thesis by (simp add: student_page_required_grade_def TARGET_AVG_def)
qed

section \<open>Properties of the prediction endpoint\<close>

lemma fl_add_zero_left [simp]: "fl_add (Fin 0) g = g"
  by (cases g) simp_all

lemma fl_div_one [simp]: "fl_div g (Fin 1) = Inr g"
  by (cases g) (simp_all add: inf_times_def)

lemma prepare_points_length [simp]:
  "length (prepare_points_from_subjects subs) = length subs"
  by (simp add: prepare_points_from_subjects_def)

lemma prepare_points_nth:
  "i < length subs \<Longrightarrow>
   prepare_points_from_subjects subs ! i =
     (case date_added (subs ! i) of Some t \<Rightarrow> Fin t | None \<Rightarrow> Fin (of_nat i),
      float_grade (subs ! i))"
  by (simp add: prepare_points_from_subjects_def nth_enumerate_eq)

lemma predict_baseline_Fin:
  assumes "subs \<noteq> []" and "map float_grade subs = map Fin qs"
  shows "\<exists>j. predict sid subs = Inr j \<and> baseline_avg j = Some (py_round2 (Fin (mean qs)))"
proof -
  obtain p where p: "linear_regression_predict (prepare_points_from_subjects subs) = Inr p"
    using linear_regression_predict_total by blast
  from assms have l: "length qs = length subs" by (metis length_map)
  with assms(1) have n: "(of_nat (length qs) :: rat) \<noteq> 0" by simp
  have d: "fl_div (py_sum (map Fin qs)) (Fin (of_nat (length (map Fin qs)))) = Inr (Fin (mean qs))"
    by (simp only: py_sum_Fin length_map fl_div_Fin [OF n] mean_def)
  have q: "map Fin qs \<noteq> []" using assms(1) l by auto
  have avg: "(if map float_grade subs \<noteq> []
              then bind_res (fl_div (py_sum (map float_grade subs))
                               (Fin (of_nat (length (map float_grade subs)))))
                     (\<lambda>m. Inr (Some (py_round2 m)))
              else Inr None) = Inr (Some (py_round2 (Fin (mean qs))))"
    by (simp only: assms(2) q d bind_res_Inr not_False_eq_True if_True)
  have "predict sid subs =
          Inr (if p = None
               then \<lparr>json_student_id = Some sid, prediction = Some (py_round2 (Fin (mean qs))),
                     baseline_avg = Some (py_round2 (Fin (mean qs))),
                     explanation = ''Not enough history; using baseline average.''\<rparr>
               else \<lparr>json_student_id = Some sid, prediction = p,
                     baseline_avg = Some (py_round2 (Fin (mean qs))),
                     explanation = ''Prediction based on linear trend of historical grades.''\<rparr>)"
    by (simp only: predict_def Let_def assms(1) if_False p avg bind_res_Inr)
  then show ?thesis by (cases "p = None") (simp_all del: py_round2.simps)
qed

lemma float_grade_Fin:
  "map grade ss = map (\<lambda>q. Some (Fin q)) qs \<Longrightarrow> map float_grade ss = map Fin qs"
proof (induction ss arbitrary: qs)
  case Nil
  then show ?case by simp
next
  case (Cons s ss)
  then show ?case by (cases qs) (auto simp: float_grade_def)
qed

lemma mean_with_zero:
  assumes "qs \<noteq> []" and "\<forall>q\<in>set qs. (0::rat) < q"
  shows "sum_list qs / of_nat (length qs + 1) < mean qs"
proof -
  have "0 < sum_list qs"
    using assms by (induction qs) (auto intro: add_pos_nonneg sum_list_nonneg less_imp_le)
  moreover have "(0::rat) < of_nat (length qs)" using assms(1) by simp
  ultimately show ?thesis
    by (simp add: mean_def field_simps)
qed

text \<open>
  C6 (as stated): for a history of exactly one observation \<open>predict\<close> returns the
  grade as prediction and as baseline average. The baseline average is rounded to two
  decimals: for the single grade 7.123 it is 7.12.
\<close>

theorem C6_baseline_is_rounded:
  "predict ''s1''
     [\<lparr>sub_id = 1, student_id = ''s1'', subject = ''Math'', grade = Some (Fin (7123 / 1000)),
       date_added = Some 1700000000\<rparr>]
   = Inr \<lparr>json_student_id = Some ''s1'', prediction = Some (Fin (7123 / 1000)),
          baseline_avg = Some (Fin (178 / 25)),
          explanation = ''Prediction based on linear trend of historical grades.''\<rparr>
   \<and> Fin (178 / 25) \<noteq> Fin (7123 / 1000)"
  by code_simp

text \<open>
  C6 (amended): for a history of exactly one observation with grade \<open>g0\<close>, \<open>predict\<close>
  returns the prediction \<open>g0\<close> exactly, neither rounded nor clipped, and the baseline
  average \<open>g0\<close> rounded to two decimals.
\<close>

theorem C6_single_observation:
  "predict sid [s] =
     Inr \<lparr>json_student_id = Some sid, prediction = Some (float_grade s),
          baseline_avg = Some (py_round2 (float_grade s)),
          explanation = ''Prediction based on linear trend of historical grades.''\<rparr>"
proof -
  have "fl_div (py_sum [float_grade s]) (Fin (of_nat (length [float_grade s])))
        = Inr (float_grade s)"
    by (cases "float_grade s") (simp_all add: py_sum_def inf_times_def)
  then show ?thesis
    by (simp add: predict_def Let_def linear_regression_predict_def
        prepare_points_from_subjects_def)
qed

text \<open>
  C7: for an empty history \<open>predict\<close> returns, with no prediction and no baseline
  average.
\<close>

theorem C7_empty_history:
  "predict sid [] =
     Inr \<lparr>json_student_id = None, prediction = None, baseline_avg = None,
          explanation = ''No grades available.''\<rparr>"
  by (simp add: predict_def)

text \<open>
  C8 (as stated): the x-values of one history are all timestamps or all ordinal
  indices, never mixed. A history whose first record has a timestamp and whose second
  record has none gets the timestamp as first x-value and the index 1 as second.
\<close>

theorem C8_mixed_sources:
  "map fst (prepare_points_from_subjects
     [\<lparr>sub_id = 1, student_id = ''s1'', subject = ''Math'', grade = Some (Fin 8),
       date_added = Some 1700000000\<rparr>,
      \<lparr>sub_id = 2, student_id = ''s1'', subject = ''Art'', grade = Some (Fin 7),
       date_added = None\<rparr>])
   = [Fin 1700000000, Fin 1]"
  by code_simp

text \<open>
  C8 (amended): the source of each x-value is chosen per record: the timestamp of
  \<open>date_added\<close> when the record has one, the record's ordinal index otherwise. The
  x-values of a history are all timestamps when every record has a timestamp, and all
  ordinal indices when no record has one.
\<close>

theorem C8_x_value_source:
  "length (prepare_points_from_subjects subs) = length subs
   \<and> (\<forall>i<length subs. fst (prepare_points_from_subjects subs ! i) =
          (case date_added (subs ! i) of Some t \<Rightarrow> Fin t | None \<Rightarrow> Fin (of_nat i)))
   \<and> (map date_added subs = map Some ts \<longrightarrow>
          map fst (prepare_points_from_subjects subs) = map Fin ts)
   \<and> ((\<forall>s\<in>set subs. date_added s = None) \<longrightarrow>
          map fst (prepare_points_from_subjects subs) = map (\<lambda>i. Fin (of_nat i)) [0 ..< length subs])"
proof (intro conjI impI allI)
  show "length (prepare_points_from_subjects subs) = length subs" by simp
next
  fix i assume "i < length subs"
  then show "fst (prepare_points_from_subjects subs ! i) =
          (case date_added (subs ! i) of Some t \<Rightarrow> Fin t | None \<Rightarrow> Fin (of_nat i))"
    by (simp add: prepare_points_nth)
next
  assume h: "map date_added subs = map Some ts"
  then have l: "length ts = length subs" by (metis length_map)
  show "map fst (prepare_points_from_subjects subs) = map Fin ts"
  proof (rule nth_equalityI)
    show "length (map fst (prepare_points_from_subjects subs)) = length (map Fin ts)"
      using l by simp
  next
    fix i assume "i < length (map fst (prepare_points_from_subjects subs))"
    then have i: "i < length subs" by simp
    then have "date_added (subs ! i) = Some (ts ! i)"
      using h l by (metis nth_map)
    then show "map fst (prepare_points_from_subjects subs) ! i = map Fin ts ! i"
      using i l by (simp add: prepare_points_nth)
  qed
next
  assume h: "\<forall>s\<in>set subs. date_added s = None"
  show "map fst (prepare_points_from_subjects subs) = map (\<lambda>i. Fin (of_nat i)) [0 ..< length subs]"
  proof (rule nth_equalityI)
    show "length (map fst (prepare_points_from_subjects subs)) =
          length (map (\<lambda>i. Fin (of_nat i)) [0 ..< length subs])"
      by simp
  next
    fix i assume "i < length (map fst (prepare_points_from_subjects subs))"
    then have i: "i < length subs" by simp
    then have "date_added (subs ! i) = None" using h by simp
    then show "map fst (prepare_points_from_subjects subs) ! i =
               map (\<lambda>i. Fin (of_nat i)) [0 ..< length subs] ! i"
      using i by (simp add: prepare_points_nth)
  qed
qed

theorem C8_x_value_source_witness:
  "map fst (prepare_points_from_subjects
     [\<lparr>sub_id = 1, student_id = ''s1'', subject = ''Math'', grade = Some (Fin 8),
       date_added = Some 1700000000\<rparr>,
      \<lparr>sub_id = 2, student_id = ''s1'', subject = ''Art'', grade = Some (Fin 7),
       date_added = Some 1700086400\<rparr>])
   = [Fin 1700000000, Fin 1700086400]
   \<and> map fst (prepare_points_from_subjects
     [\<lparr>sub_id = 1, student_id = ''s1'', subject = ''Math'', grade = Some (Fin 8),
       date_added = None\<rparr>,
      \<lparr>sub_id = 2, student_id = ''s1'', subject = ''Art'', grade = Some (Fin 7),
       date_added = None\<rparr>])
   = [Fin 0, Fin 1]"
  using C8_x_value_source [of
     "[\<lparr>sub_id = 1, student_id = ''s1'', subject = ''Math'', grade = Some (Fin 8),
       date_added = Some 1700000000\<rparr>,
      \<lparr>sub_id = 2, student_id = ''s1'', subject = ''Art'', grade = Some (Fin 7),
       date_added = Some 1700086400\<rparr>]" "[1700000000, 1700086400]"]
    C8_x_value_source [of
     "[\<lparr>sub_id = 1, student_id = ''s1'', subject = ''Math'', grade = Some (Fin 8),
       date_added = None\<rparr>,
      \<lparr>sub_id = 2, student_id = ''s1'', subject = ''Art'', grade = Some (Fin 7),
       date_added = None\<rparr>]" "[]"]
  by (simp add: upt_rec)




section \<open>Properties of the handlers that write subject records\<close>

lemma fl_in_bounds:
  "g \<noteq> NaN \<Longrightarrow> \<not> fl_lt g MIN_GRADE \<Longrightarrow> \<not> fl_gt g MAX_GRADE \<Longrightarrow>
   \<exists>q. g = Fin q \<and> 6 \<le> q \<and> q \<le> 10"
  by (cases g) (auto simp: MIN_GRADE_def MAX_GRADE_def fl_gt_def)

lemma update_one_in_bounds:
  "list_all grade_in_bounds ss \<Longrightarrow> 6 \<le> q \<Longrightarrow> q \<le> 10 \<Longrightarrow>
   list_all grade_in_bounds (update_one oid n (Fin q) ss)"
  by (induction ss) (auto simp: grade_in_bounds_def)

text \<open>
  A grade that \<^verbatim>\<open>float\<close> rejects, or accepts as a number outside the bounds or as an
  infinity, is answered with an error status and nothing is written.
\<close>

lemma student_page_post_rejects:
  assumes "case float_of_string lib (form_get form ''grade'') of
             None \<Rightarrow> True | Some g \<Rightarrow> fl_lt g MIN_GRADE \<or> fl_gt g MAX_GRADE"
  shows "snd (student_page_post lib new_id now d ident form) = d
    \<and> (\<exists>c m. fst (student_page_post lib new_id now d ident form) = Status c m
           \<and> (c = 400 \<or> c = 404))"
  using assms
  by (auto simp: student_page_post_def Let_def split: option.splits)

lemma edit_subject_rejects:
  assumes "case float_of_string lib (form_get form ''new_grade'') of
             None \<Rightarrow> True | Some g \<Rightarrow> fl_lt g MIN_GRADE \<or> fl_gt g MAX_GRADE"
  shows "snd (edit_subject lib d sid subject_id form) = d
    \<and> (\<exists>c m. fst (edit_subject lib d sid subject_id form) = Status c m
           \<and> (c = 400 \<or> c = 404))"
  using assms
  by (auto simp: edit_subject_def Let_def split: option.splits)

text \<open>As long as \<^verbatim>\<open>float\<close> does not answer NaN, both handlers keep every stored grade within the bounds.\<close>

lemma student_page_post_preserves:
  assumes "stored_grades_in_bounds d"
    and "float_of_string lib (form_get form ''grade'') \<noteq> Some NaN"
  shows "stored_grades_in_bounds (snd (student_page_post lib new_id now d ident form))"
  using assms
  by (auto simp: student_page_post_def stored_grades_in_bounds_def grade_in_bounds_def Let_def
      split: option.splits dest!: fl_in_bounds)

lemma edit_subject_preserves:
  assumes "stored_grades_in_bounds d"
    and "float_of_string lib (form_get form ''new_grade'') \<noteq> Some NaN"
  shows "stored_grades_in_bounds (snd (edit_subject lib d sid subject_id form))"
  using assms
  by (auto simp: edit_subject_def stored_grades_in_bounds_def Let_def update_one_in_bounds
      split: option.splits dest!: fl_in_bounds)

text \<open>
  C9: every subject record written by the add-subject and edit-subject handlers has a
  numeric grade within \<open>[MIN_GRADE, MAX_GRADE]\<close>. The check
  \<^verbatim>\<open>grade<MIN_GRADE or grade>MAX_GRADE\<close> is false for NaN, which \<^verbatim>\<open>float\<close> answers for
  the text \<^verbatim>\<open>nan\<close>: such a submission for an existing student, with a subject name, is
  answered with a redirect and a record with the grade NaN is stored.
\<close>

theorem C9_nan_grade_is_stored:
  assumes "to_objid lib ident = Some oid"
    and "find (\<lambda>st. stu_id st = oid) (students d) = Some st"
    and "strip (form_get form ''subject_name'') \<noteq> []"
    and "float_of_string lib (form_get form ''grade'') = Some NaN"
  shows "student_page_post lib new_id now d ident form =
           (Redirect (''/student/'' @ ident),
            d\<lparr>subjects := subjects d @
                [\<lparr>sub_id = new_id, student_id = ident,
                  subject = strip (form_get form ''subject_name''),
                  grade = Some NaN, date_added = Some now\<rparr>]\<rparr>)
         \<and> \<not> stored_grades_in_bounds (snd (student_page_post lib new_id now d ident form))"
  using assms
  by (simp add: student_page_post_def Let_def MIN_GRADE_def MAX_GRADE_def fl_gt_def
      stored_grades_in_bounds_def grade_in_bounds_def)

theorem C9_nan_grade_is_stored_witness:
  "stored_grades_in_bounds \<lparr>students = [\<lparr>stu_id = 1, name = ''Ana''\<rparr>], subjects = []\<rparr>
   \<and> \<not> stored_grades_in_bounds (snd (student_page_post
       \<lparr>ObjectId = (\<lambda>s. if s = ''65a1f0c2e4b0a1b2c3d4e5f6'' then Some 1 else None),
        float_of_string = (\<lambda>s. if s = ''nan'' then Some NaN else None)\<rparr>
       2 1700000000
       \<lparr>students = [\<lparr>stu_id = 1, name = ''Ana''\<rparr>], subjects = []\<rparr>
       ''65a1f0c2e4b0a1b2c3d4e5f6''
       [''subject_name'' \<mapsto> ''Math'', ''grade'' \<mapsto> ''nan'']))"
  using C9_nan_grade_is_stored [of
       "\<lparr>ObjectId = (\<lambda>s. if s = ''65a1f0c2e4b0a1b2c3d4e5f6'' then Some 1 else None),
        float_of_string = (\<lambda>s. if s = ''nan'' then Some NaN else None)\<rparr>"
       "''65a1f0c2e4b0a1b2c3d4e5f6''" 1
       "\<lparr>students = [\<lparr>stu_id = 1, name = ''Ana''\<rparr>], subjects = []\<rparr>"
       "\<lparr>stu_id = 1, name = ''Ana''\<rparr>"
       "[''subject_name'' \<mapsto> ''Math'', ''grade'' \<mapsto> ''nan'']" 2 1700000000]
  by (auto simp: to_objid_def form_get_def strip_def py_isspace_def stored_grades_in_bounds_def)

end
